theory Spec2Isabelle
  imports Complex_Main "HOL-Library.Word"
begin

section \<open>Files, handles and the exceptions of the script\<close>

text \<open>
  The script \<^verbatim>\<open>read-data.py\<close> reads two binary files through the \<^verbatim>\<open>os\<close> module. A file
  is the list of its bytes; an open handle is the file together with the current offset.
  Offsets given to \<^verbatim>\<open>os.lseek\<close> are signed Python integers, the offset kept in the handle
  is never negative (the system call refuses a negative result with \<^verbatim>\<open>EINVAL\<close>).

  Only the exceptions that the code itself can provoke on a file that does not change
  under it are modelled: \<^verbatim>\<open>OSError\<close> (of which \<^verbatim>\<open>IOError\<close> is an alias), \<^verbatim>\<open>ValueError\<close>,
  \<^verbatim>\<open>struct.error\<close> (a direct subclass of \<^verbatim>\<open>Exception\<close>, hence caught by none of the
  handlers of the script), \<^verbatim>\<open>ZeroDivisionError\<close> and \<^verbatim>\<open>UnboundLocalError\<close>.
\<close>

type_synonym byte = "8 word"

datatype error = OSError | ValueError | StructError | ZeroDivisionError | UnboundLocalError

record file_handle =
  contents :: "byte list"
  position :: nat

datatype whence = SEEK_SET | SEEK_CUR | SEEK_END

definition os_open :: "byte list option \<Rightarrow> error + file_handle" where
  "os_open file = (case file of
       None \<Rightarrow> Inl OSError
     | Some bs \<Rightarrow> Inr \<lparr>contents = bs, position = 0\<rparr>)"

definition os_lseek :: "file_handle \<Rightarrow> int \<Rightarrow> whence \<Rightarrow> error + (int \<times> file_handle)" where
  "os_lseek fh off how =
     (let p = (case how of
                 SEEK_SET \<Rightarrow> off
               | SEEK_CUR \<Rightarrow> int (position fh) + off
               | SEEK_END \<Rightarrow> int (length (contents fh)) + off)
      in if p < 0 then Inl OSError else Inr (p, fh\<lparr>position := nat p\<rparr>))"

definition os_read :: "file_handle \<Rightarrow> int \<Rightarrow> error + (byte list \<times> file_handle)" where
  "os_read fh n =
     (if n < 0 then Inl OSError
      else let bs = take (nat n) (drop (position fh) (contents fh))
           in Inr (bs, fh\<lparr>position := position fh + length bs\<rparr>))"

text \<open>
  \<^verbatim>\<open>struct.unpack\<close> of one unsigned field: the buffer must have exactly the size of the
  format, else \<^verbatim>\<open>struct.error\<close>. The format \<^verbatim>\<open>'<I'\<close> is little-endian; the format \<^verbatim>\<open>'H'\<close>
  uses the byte order of the host, taken here to be little-endian as well.
\<close>

fun le_uint :: "byte list \<Rightarrow> int" where
  "le_uint [] = 0"
| "le_uint (b # bs) = uint b + 256 * le_uint bs"

definition struct_unpack_H :: "byte list \<Rightarrow> error + int" where
  "struct_unpack_H bs = (if length bs = 2 then Inr (le_uint bs) else Inl StructError)"

definition struct_unpack_I :: "byte list \<Rightarrow> error + int" where
  "struct_unpack_I bs = (if length bs = 4 then Inr (le_uint bs) else Inl StructError)"


section \<open>The readers\<close>

text \<open>
  \<^verbatim>\<open>read_width_and_height\<close>: the value read at \<^verbatim>\<open>width_pos\<close> is bound to \<^verbatim>\<open>height\<close>, the
  value read at \<^verbatim>\<open>height_pos\<close> to \<^verbatim>\<open>width\<close>, and \<^verbatim>\<open>(width, height)\<close> is returned. The
  handlers re-raise an exception of the same class. When \<^verbatim>\<open>os.open\<close> fails the name
  \<^verbatim>\<open>file_handle\<close> is unbound in the \<^verbatim>\<open>finally\<close> clause, whose \<^verbatim>\<open>UnboundLocalError\<close>
  replaces the exception in flight.
\<close>

definition read_width_and_height :: "byte list option \<Rightarrow> int \<Rightarrow> int \<Rightarrow> error + (int \<times> int)" where
  "read_width_and_height attr_file width_pos height_pos =
     (case os_open attr_file of
        Inl e \<Rightarrow> Inl UnboundLocalError
      | Inr fh \<Rightarrow>
     (case os_lseek fh width_pos SEEK_SET of
        Inl e \<Rightarrow> Inl e
      | Inr (p1, fh1) \<Rightarrow>
     (case os_read fh1 2 of
        Inl e \<Rightarrow> Inl e
      | Inr (d1, fh2) \<Rightarrow>
     (case struct_unpack_H d1 of
        Inl e \<Rightarrow> Inl e
      | Inr height \<Rightarrow>
     (case os_lseek fh2 height_pos SEEK_SET of
        Inl e \<Rightarrow> Inl e
      | Inr (p2, fh3) \<Rightarrow>
     (case os_read fh3 2 of
        Inl e \<Rightarrow> Inl e
      | Inr (d2, fh4) \<Rightarrow>
     (case struct_unpack_H d2 of
        Inl e \<Rightarrow> Inl e
      | Inr width \<Rightarrow> Inr (width, height))))))))"

text \<open>
  The loop \<^verbatim>\<open>for i in range(3)\<close> of \<^verbatim>\<open>read_timestamp\<close>: each round reads four bytes,
  unpacks them and appends the value to \<^verbatim>\<open>ts_data_arr\<close>.
\<close>

fun ts_loop :: "nat \<Rightarrow> file_handle \<Rightarrow> int list \<Rightarrow> error + (int list \<times> file_handle)" where
  "ts_loop 0 fh ts_data_arr = Inr (ts_data_arr, fh)"
| "ts_loop (Suc k) fh ts_data_arr =
     (case os_read fh 4 of
        Inl e \<Rightarrow> Inl e
      | Inr (bs, fh') \<Rightarrow>
     (case struct_unpack_I bs of
        Inl e \<Rightarrow> Inl e
      | Inr ts_data \<Rightarrow> ts_loop k fh' (ts_data_arr @ [ts_data])))"

definition read_timestamp :: "file_handle \<Rightarrow> bool \<Rightarrow> error + (int list \<times> file_handle)" where
  "read_timestamp fh reset_location =
     (case os_lseek fh 0 SEEK_CUR of
        Inl e \<Rightarrow> Inl e
      | Inr (current_location, fh0) \<Rightarrow>
     (case ts_loop 3 fh0 [] of
        Inl e \<Rightarrow> Inl e
      | Inr (ts_data_arr, fh1) \<Rightarrow>
          if reset_location
          then (case os_lseek fh1 current_location SEEK_SET of
                  Inl e \<Rightarrow> Inl e
                | Inr (p, fh2) \<Rightarrow> Inr (ts_data_arr, fh2))
          else Inr (ts_data_arr, fh1)))"

definition read_frame :: "file_handle \<Rightarrow> int \<Rightarrow> int \<Rightarrow> bool \<Rightarrow> error + (byte list \<times> file_handle)" where
  "read_frame fh w h reset_location =
     (case os_lseek fh 0 SEEK_CUR of
        Inl e \<Rightarrow> Inl e
      | Inr (current_location, fh0) \<Rightarrow>
     (case os_read fh0 (w * h) of
        Inl e \<Rightarrow> Inl e
      | Inr (data, fh1) \<Rightarrow>
          if reset_location
          then (case os_lseek fh1 current_location SEEK_SET of
                  Inl e \<Rightarrow> Inl e
                | Inr (p, fh2) \<Rightarrow> Inr (data, fh2))
          else Inr (data, fh1)))"


section \<open>Layout and metrics\<close>

text \<open>
  Python's \<^verbatim>\<open>int(a / b)\<close> on integers: the true quotient, truncated towards zero. The
  quotient is a double; for operands below \<open>2 ^ 53\<close> in magnitude (file sizes below
  eight petabytes) truncating the double and truncating the exact quotient agree, and
  the model takes the exact quotient. \<^verbatim>\<open>fps\<close> and \<^verbatim>\<open>duration\<close> are doubles in the
  script and exact rationals here: rounding to the nearest double is not modelled.
\<close>

definition HEADER_SIZE :: int where
  "HEADER_SIZE = 40"

definition int_truediv :: "int \<Rightarrow> int \<Rightarrow> error + int" where
  "int_truediv a b =
     (if b = 0 then Inl ZeroDivisionError
      else Inr (sgn a * sgn b * (\<bar>a\<bar> div \<bar>b\<bar>)))"

record FileInfoTuple =
  width :: int
  height :: int
  ts_first :: "int list"
  ts_second :: "int list"
  ts_last :: "int list"
  dt :: int
  dt_total :: int
  frames :: int
  fps :: rat
  duration :: rat
  pos_first :: int
  pos_last :: int

definition read_file_info ::
  "file_handle \<Rightarrow> int \<Rightarrow> int \<Rightarrow> bool \<Rightarrow> error + (FileInfoTuple \<times> file_handle)" where
  "read_file_info fh w h reset_location =
     (case os_lseek fh 0 SEEK_CUR of
        Inl e \<Rightarrow> Inl e
      | Inr (start_pos, fh0) \<Rightarrow>
     (case os_lseek fh0 HEADER_SIZE SEEK_SET of
        Inl e \<Rightarrow> Inl e
      | Inr (pos_first', fh1) \<Rightarrow>
     (case read_timestamp fh1 False of
        Inl e \<Rightarrow> Inl e
      | Inr (ts_first', fh2) \<Rightarrow>
     (case os_lseek fh2 (w * h) SEEK_CUR of
        Inl e \<Rightarrow> Inl e
      | Inr (p, fh3) \<Rightarrow>
     (case read_timestamp fh3 False of
        Inl e \<Rightarrow> Inl e
      | Inr (ts_second', fh4) \<Rightarrow>
     (case os_lseek fh4 (- (w * h + 12)) SEEK_END of
        Inl e \<Rightarrow> Inl e
      | Inr (pos_last', fh5) \<Rightarrow>
     (case read_timestamp fh5 False of
        Inl e \<Rightarrow> Inl e
      | Inr (ts_last', fh6) \<Rightarrow>
     (let dt' = ts_second' ! 0 - ts_first' ! 0;
          dt_total' = ts_last' ! 0 - ts_first' ! 0
      in
     (case int_truediv (pos_last' - pos_first') (w * h + 12) of
        Inl e \<Rightarrow> Inl e
      | Inr q \<Rightarrow>
     (let frames' = q + 1 in
      if dt_total' = 0 then Inl ZeroDivisionError
      else
     (let fps' = of_int ((frames' - 1) * 1000000) / of_int dt_total';
          duration' = of_int (ts_last' ! 0 - ts_first' ! 0 + dt') / 1000000;
          info = \<lparr>width = w, height = h, ts_first = ts_first', ts_second = ts_second',
                  ts_last = ts_last', dt = dt', dt_total = dt_total', frames = frames',
                  fps = fps', duration = duration', pos_first = pos_first',
                  pos_last = pos_last'\<rparr>
      in if reset_location
         then (case os_lseek fh6 start_pos SEEK_SET of
                 Inl e \<Rightarrow> Inl e
               | Inr (p', fh7) \<Rightarrow> Inr (info, fh7))
         else Inr (info, fh6))))))))))))"

section \<open>Extraction\<close>

text \<open>
  The output directory is given by its content: the map from a frame index \<open>i\<close> to the
  file \<^verbatim>\<open>{i:04d}.png\<close>, when that file exists; a file written by the script is
  represented by the frame it was made from. The three calls to the imaging library
  (\<^verbatim>\<open>Image.new\<close> with the size \<^verbatim>\<open>(height, width)\<close>, \<^verbatim>\<open>putdata\<close>, \<^verbatim>\<open>save\<close>) are a parameter
  \<open>image_save\<close> that either succeeds or raises; a call that raises leaves no file.

  Besides the directory the state of the loop keeps, for the statement of properties
  only, the list \<open>handed\<close> of the values of \<^verbatim>\<open>(i, ts, frame)\<close> at each hand-over to the
  imaging library. Output on the terminal is not modelled.
\<close>

type_synonym image_sink = "int \<times> int \<Rightarrow> nat \<Rightarrow> byte list \<Rightarrow> error option"

record extraction =
  handle :: file_handle
  out_files :: "nat \<rightharpoonup> byte list"
  handed :: "(nat \<times> int list \<times> byte list) list"

fun frame_loop ::
  "image_sink \<Rightarrow> int \<Rightarrow> int \<Rightarrow> nat list \<Rightarrow> extraction \<Rightarrow> error option \<times> extraction" where
  "frame_loop image_save w h [] st = (None, st)"
| "frame_loop image_save w h (i # rest) st =
     (if out_files st i \<noteq> None
      then (case os_lseek (handle st) (w * h + 12) SEEK_CUR of
              Inl e \<Rightarrow> (Some e, st)
            | Inr (p, fh1) \<Rightarrow> frame_loop image_save w h rest (st\<lparr>handle := fh1\<rparr>))
      else
     (case read_timestamp (handle st) False of
        Inl e \<Rightarrow> (Some e, st)
      | Inr (ts, fh1) \<Rightarrow>
     (case read_frame fh1 w h False of
        Inl e \<Rightarrow> (Some e, st)
      | Inr (frame, fh2) \<Rightarrow>
     (let st1 = st\<lparr>handle := fh2, handed := handed st @ [(i, ts, frame)]\<rparr>
      in case image_save (h, w) i frame of
           Some e \<Rightarrow> (Some e, st1)
         | None \<Rightarrow>
             frame_loop image_save w h rest
               (st1\<lparr>out_files := (out_files st1)(i \<mapsto> frame)\<rparr>)))))"

text \<open>
  The keyword parameters of \<^verbatim>\<open>read_data\<close>, and what its caller observes: a normal return
  or an exception. The handlers of the \<^verbatim>\<open>try\<close> statement print an \<^verbatim>\<open>IOError\<close>, \<^verbatim>\<open>OSError\<close>
  or \<^verbatim>\<open>ValueError\<close> and fall through to the end of the function; any other exception
  leaves the function. A data file that cannot be opened leaves \<^verbatim>\<open>file_handle\<close> unbound
  for the \<^verbatim>\<open>finally\<close> clause.
\<close>

record read_data_options =
  first_frame :: int
  last_frame :: int
  quality :: int
  framerate :: "int option"
  skipframes :: int
  force_overwrite :: bool

datatype outcome = Returned | Raised error

definition except_clauses :: "error option \<Rightarrow> outcome" where
  "except_clauses r = (case r of
       None \<Rightarrow> Returned
     | Some e \<Rightarrow> if e = OSError \<or> e = ValueError then Returned else Raised e)"

definition read_data ::
  "image_sink \<Rightarrow> byte list option \<Rightarrow> byte list option \<Rightarrow> (nat \<rightharpoonup> byte list) \<Rightarrow>
   read_data_options \<Rightarrow> outcome \<times> (nat \<rightharpoonup> byte list) \<times> (nat \<times> int list \<times> byte list) list" where
  "read_data image_save data_file attr_file out_dir opts =
     (case read_width_and_height attr_file 19 37 of
        Inl e \<Rightarrow> (Raised e, out_dir, [])
      | Inr (w, h) \<Rightarrow>
     (case os_open data_file of
        Inl e \<Rightarrow> (Raised UnboundLocalError, out_dir, [])
      | Inr fh \<Rightarrow>
     (let st0 = \<lparr>handle = fh, out_files = out_dir, handed = []\<rparr>;
          r = (case read_file_info fh w h False of
                 Inl e \<Rightarrow> (Some e, st0)
               | Inr (file_info, fh1) \<Rightarrow>
               (let framerate' = (case framerate opts of
                                    None \<Rightarrow> fps file_info
                                  | Some f \<Rightarrow> of_int f)
                in case os_lseek fh1 (pos_first file_info) SEEK_SET of
                     Inl e \<Rightarrow> (Some e, st0)
                   | Inr (p, fh2) \<Rightarrow>
                       frame_loop image_save w h [0..<nat (frames file_info)]
                         (st0\<lparr>handle := fh2\<rparr>)))
      in (except_clauses (fst r), out_files (snd r), handed (snd r)))))"


section \<open>Decoding at an offset\<close>

text \<open>
  The values that the statements below compare the readers with: the unsigned 32-bit
  little-endian integer at offset \<open>p\<close> of a file, the timestamp (three such integers)
  at offset \<open>p\<close>, and the record of index \<open>i\<close> in a data file whose records have
  \<open>w * h + 12\<close> bytes and begin after the header of 40 bytes.
\<close>

definition u32_at :: "byte list \<Rightarrow> nat \<Rightarrow> int" where
  "u32_at bs p = le_uint (take 4 (drop p bs))"

definition ts_at :: "byte list \<Rightarrow> nat \<Rightarrow> int list" where
  "ts_at bs p = [u32_at bs p, u32_at bs (p + 4), u32_at bs (p + 8)]"



section \<open>Sample inputs\<close>

text \<open>
  The keyword defaults of \<^verbatim>\<open>read_data\<close>; output directories (empty, and holding only
  \<^verbatim>\<open>0003.png\<close>); imaging libraries that always succeed, always fail with \<^verbatim>\<open>OSError\<close>, and
  fail with \<^verbatim>\<open>OSError\<close> from the second frame on; an attribute file for frames of one pixel;
  data files of three and of ten such frames, the frame of index \<open>i\<close> carrying the
  timestamp \<open>(i + 1, 0, 0)\<close> and the pixel \<open>100 + i\<close>.
\<close>

definition default_options :: read_data_options where
  "default_options = \<lparr>first_frame = 0, last_frame = - 1, quality = 100, framerate = None,
     skipframes = 0, force_overwrite = False\<rparr>"

definition no_files :: "nat \<rightharpoonup> byte list" where
  "no_files i = None"


definition accept_all :: image_sink where
  "accept_all dims i frame = None"



definition attr_1x1 :: "byte list" where
  "attr_1x1 = replicate 19 0 @ [1, 0] @ replicate 16 0 @ [1, 0]"




section \<open>Seeking and reading\<close>


lemma os_lseek_cur0 [simp]: "os_lseek fh 0 SEEK_CUR = Inr (int (position fh), fh)"
  by (simp add: os_lseek_def)

lemma os_read_4_avail:
  "position fh + 4 \<le> length (contents fh) \<Longrightarrow>
   os_read fh 4 = Inr (take 4 (drop (position fh) (contents fh)), fh\<lparr>position := position fh + 4\<rparr>)"
  by (simp add: os_read_def Let_def min_def)


lemma ts_loop_step:
  assumes "position fh + 4 \<le> length (contents fh)"
  shows "ts_loop (Suc k) fh acc =
         ts_loop k (fh\<lparr>position := position fh + 4\<rparr>) (acc @ [u32_at (contents fh) (position fh)])"
  using assms by (simp add: os_read_4_avail struct_unpack_I_def u32_at_def)


lemma ts_loop_3_avail:
  assumes "position fh + 12 \<le> length (contents fh)"
  shows "ts_loop 3 fh acc =
         Inr (acc @ ts_at (contents fh) (position fh), fh\<lparr>position := position fh + 12\<rparr>)"
proof -
  let ?bs = "contents fh" and ?p = "position fh"
  have "ts_loop 3 fh acc = ts_loop (Suc (Suc (Suc 0))) fh acc"
    by (simp add: numeral_3_eq_3)
  also have "\<dots> = ts_loop (Suc (Suc 0)) (fh\<lparr>position := ?p + 4\<rparr>) (acc @ [u32_at ?bs ?p])"
    using assms by (intro ts_loop_step) simp
  also have "\<dots> = ts_loop (Suc 0) (fh\<lparr>position := ?p + 8\<rparr>) (acc @ [u32_at ?bs ?p, u32_at ?bs (?p + 4)])"
    using assms ts_loop_step [of "fh\<lparr>position := ?p + 4\<rparr>" "Suc 0" "acc @ [u32_at ?bs ?p]"]
    by (simp del: ts_loop.simps add: add.commute)
  also have "\<dots> = ts_loop 0 (fh\<lparr>position := ?p + 12\<rparr>)
                      (acc @ [u32_at ?bs ?p, u32_at ?bs (?p + 4), u32_at ?bs (?p + 8)])"
    using assms ts_loop_step [of "fh\<lparr>position := ?p + 8\<rparr>" 0 "acc @ [u32_at ?bs ?p, u32_at ?bs (?p + 4)]"]
    by (simp del: ts_loop.simps add: add.commute)
  finally show ?thesis by (simp add: ts_at_def)
qed

lemma read_timestamp_avail:
  assumes "position fh + 12 \<le> length (contents fh)"
  shows "read_timestamp fh reset_location =
         Inr (ts_at (contents fh) (position fh),
              fh\<lparr>position := (if reset_location then position fh else position fh + 12)\<rparr>)"
  using assms by (simp add: read_timestamp_def ts_loop_3_avail os_lseek_def)



lemma seek_header [simp]:
  "os_lseek fh HEADER_SIZE SEEK_SET = Inr (40, fh\<lparr>position := 40\<rparr>)"
  by (simp add: os_lseek_def HEADER_SIZE_def)

lemma seek_set_nat:
  "os_lseek fh (int p) SEEK_SET = Inr (int p, fh\<lparr>position := p\<rparr>)"
  by (simp add: os_lseek_def)

lemma seek_cur_nonneg:
  "0 \<le> d \<Longrightarrow> os_lseek fh d SEEK_CUR = Inr (int (position fh) + d, fh\<lparr>position := position fh + nat d\<rparr>)"
  by (simp add: os_lseek_def nat_add_distrib)

lemma seek_end_stride:
  "d \<le> int (length (contents fh)) \<Longrightarrow>
   os_lseek fh (- d) SEEK_END =
     Inr (int (length (contents fh)) - d, fh\<lparr>position := nat (int (length (contents fh)) - d)\<rparr>)"
  by (simp add: os_lseek_def Let_def)

lemma int_truediv_pos:
  "0 \<le> a \<Longrightarrow> 0 < b \<Longrightarrow> int_truediv a b = Inr (a div b)"
  by (cases "a = 0") (simp_all add: int_truediv_def)


lemma read_file_info_full:
  assumes wh: "0 \<le> w * h" and long: "w * h + 64 \<le> int (length (contents fh))"
  shows "read_file_info fh w h reset_location =
    (let bs = contents fh;
         file_size = int (length bs);
         t_first = ts_at bs 40;
         t_second = ts_at bs (52 + nat (w * h));
         t_last = ts_at bs (nat (file_size - (w * h + 12)));
         n = (file_size - 40) div (w * h + 12)
     in if t_last ! 0 = t_first ! 0 then Inl ZeroDivisionError
        else Inr (\<lparr>width = w, height = h, ts_first = t_first, ts_second = t_second, ts_last = t_last,
                   dt = t_second ! 0 - t_first ! 0, dt_total = t_last ! 0 - t_first ! 0, frames = n,
                   fps = of_int ((n - 1) * 1000000) / of_int (t_last ! 0 - t_first ! 0),
                   duration = of_int (t_last ! 0 - t_first ! 0 + (t_second ! 0 - t_first ! 0)) / 1000000,
                   pos_first = 40, pos_last = file_size - (w * h + 12)\<rparr>,
                  fh\<lparr>position := (if reset_location then position fh
                                    else nat (file_size - (w * h)))\<rparr>))"
proof -
  define a where "a = w * h"
  define s where "s = a + 12"
  let ?bs = "contents fh"
  let ?fs = "int (length ?bs)"
  have a: "0 \<le> a" and long': "a + 64 \<le> ?fs"
    using wh long by (simp_all add: a_def)
  have first: "read_timestamp (fh\<lparr>position := 40\<rparr>) False =
      Inr (ts_at ?bs 40, fh\<lparr>position := 52\<rparr>)"
    using a long' by (simp add: read_timestamp_avail)
  have skip: "os_lseek (fh\<lparr>position := 52\<rparr>) a SEEK_CUR =
      Inr (52 + a, fh\<lparr>position := 52 + nat a\<rparr>)"
    using a by (simp add: seek_cur_nonneg)
  have second: "read_timestamp (fh\<lparr>position := 52 + nat a\<rparr>) False =
      Inr (ts_at ?bs (52 + nat a), fh\<lparr>position := 64 + nat a\<rparr>)"
    using a long' by (simp add: read_timestamp_avail)
  have seek: "os_lseek (fh\<lparr>position := 64 + nat a\<rparr>) (- s) SEEK_END =
      Inr (?fs - s, fh\<lparr>position := nat (?fs - s)\<rparr>)"
    using a long' seek_end_stride [of s "fh\<lparr>position := 64 + nat a\<rparr>"]
    by (simp add: s_def)
  have last: "read_timestamp (fh\<lparr>position := nat (?fs - s)\<rparr>) False =
      Inr (ts_at ?bs (nat (?fs - s)), fh\<lparr>position := nat (?fs - a)\<rparr>)"
  proof -
    have "nat (?fs - s) + 12 = nat (?fs - a)"
      using a long' by (simp add: s_def)
    moreover have "nat (?fs - s) + 12 \<le> length ?bs"
      using a long' by (simp add: s_def)
    ultimately show ?thesis
      using read_timestamp_avail [of "fh\<lparr>position := nat (?fs - s)\<rparr>" False] by simp
  qed
  have quot: "int_truediv (?fs - s - 40) s = Inr ((?fs - s - 40) div s)"
    using a long' by (intro int_truediv_pos) (simp_all add: s_def)
  have n: "(?fs - s - 40) div s + 1 = (?fs - 40) div s"
  proof -
    have "s \<noteq> 0" using a by (simp add: s_def)
    moreover have "?fs - 40 = (?fs - s - 40) + 1 * s" by simp
    ultimately show ?thesis
      using div_mult_self1 [of s "?fs - s - 40" 1] by simp
  qed
  show ?thesis
    unfolding read_file_info_def a_def [symmetric] s_def [symmetric]
    by (simp add: first skip second seek last quot n seek_set_nat Let_def)
qed

lemma take4_drop:
  assumes "q + 4 \<le> length bs"
  shows "take 4 (drop q bs) = [bs ! q, bs ! (q + 1), bs ! (q + 2), bs ! (q + 3)]"
proof -
  have d: "\<And>k. k < length bs \<Longrightarrow> drop k bs = bs ! k # drop (Suc k) bs"
    by (simp add: Cons_nth_drop_Suc)
  have "drop q bs = bs ! q # bs ! (q + 1) # bs ! (q + 2) # bs ! (q + 3) # drop (q + 4) bs"
    using d [of q] d [of "q + 1"] d [of "q + 2"] d [of "q + 3"] assms
    by (simp add: numeral_eq_Suc)
  then show ?thesis by simp
qed

lemma u32_at_bytes:
  assumes "q + 4 \<le> length bs"
  shows "u32_at bs q = uint (bs ! q) + 256 * uint (bs ! (q + 1))
           + 65536 * uint (bs ! (q + 2)) + 16777216 * uint (bs ! (q + 3))"
  by (simp add: u32_at_def take4_drop [OF assms])
lemma le_uint_replicate_zero [simp]: "le_uint (replicate k 0) = 0"
  by (induction k) simp_all


section \<open>Reading a timestamp\<close>

text \<open>
  Claim C7. With at least 12 bytes from the current position on, \<^verbatim>\<open>read_timestamp\<close>
  returns the three unsigned 32-bit little-endian fields found there, each the sum of its
  four bytes weighted by \<open>1\<close>, \<open>2 ^ 8\<close>, \<open>2 ^ 16\<close> and \<open>2 ^ 24\<close>; afterwards the position is
  12 bytes further when \<^verbatim>\<open>reset_location\<close> is false and where it was when
  \<^verbatim>\<open>reset_location\<close> is true.
\<close>

theorem read_timestamp_fields_and_position:
  assumes "position fh + 12 \<le> length (contents fh)"
  shows "read_timestamp fh reset_location =
         Inr ([u32_at (contents fh) (position fh),
               u32_at (contents fh) (position fh + 4),
               u32_at (contents fh) (position fh + 8)],
              fh\<lparr>position := (if reset_location then position fh else position fh + 12)\<rparr>)
       \<and> (\<forall>k<3. u32_at (contents fh) (position fh + 4 * k) =
              uint (contents fh ! (position fh + 4 * k))
              + 256 * uint (contents fh ! (position fh + 4 * k + 1))
              + 65536 * uint (contents fh ! (position fh + 4 * k + 2))
              + 16777216 * uint (contents fh ! (position fh + 4 * k + 3)))"
proof
  show "read_timestamp fh reset_location =
         Inr ([u32_at (contents fh) (position fh),
               u32_at (contents fh) (position fh + 4),
               u32_at (contents fh) (position fh + 8)],
              fh\<lparr>position := (if reset_location then position fh else position fh + 12)\<rparr>)"
    using read_timestamp_avail [OF assms] by (simp add: ts_at_def)
next
  show "\<forall>k<3. u32_at (contents fh) (position fh + 4 * k) =
              uint (contents fh ! (position fh + 4 * k))
              + 256 * uint (contents fh ! (position fh + 4 * k + 1))
              + 65536 * uint (contents fh ! (position fh + 4 * k + 2))
              + 16777216 * uint (contents fh ! (position fh + 4 * k + 3))"
  proof (intro allI impI)
    fix k :: nat assume "k < 3"
    with assms have "position fh + 4 * k + 4 \<le> length (contents fh)" by simp
    then show "u32_at (contents fh) (position fh + 4 * k) =
              uint (contents fh ! (position fh + 4 * k))
              + 256 * uint (contents fh ! (position fh + 4 * k + 1))
              + 65536 * uint (contents fh ! (position fh + 4 * k + 2))
              + 16777216 * uint (contents fh ! (position fh + 4 * k + 3))"
      by (rule u32_at_bytes)
  qed
qed

theorem read_timestamp_fields_and_position_witness:
  "read_timestamp \<lparr>contents = [9, 1, 0, 0, 0, 2, 0, 0, 0, 0, 1, 0, 0, 0, 255], position = 1\<rparr> False =
     Inr ([1, 2, 256], \<lparr>contents = [9, 1, 0, 0, 0, 2, 0, 0, 0, 0, 1, 0, 0, 0, 255], position = 13\<rparr>)
   \<and> read_timestamp \<lparr>contents = [9, 1, 0, 0, 0, 2, 0, 0, 0, 0, 1, 0, 0, 0, 255], position = 1\<rparr> True =
     Inr ([1, 2, 256], \<lparr>contents = [9, 1, 0, 0, 0, 2, 0, 0, 0, 0, 1, 0, 0, 0, 255], position = 1\<rparr>)"
  using read_timestamp_fields_and_position
          [of "\<lparr>contents = [9, 1, 0, 0, 0, 2, 0, 0, 0, 0, 1, 0, 0, 0, 255], position = 1\<rparr>" False]
        read_timestamp_fields_and_position
          [of "\<lparr>contents = [9, 1, 0, 0, 0, 2, 0, 0, 0, 0, 1, 0, 0, 0, 255], position = 1\<rparr>" True]
  by (simp add: u32_at_def)


section \<open>Width and height\<close>

text \<open>
  On an attribute file of at least 39 bytes and with the default offsets, the first
  component of the result (the width) is the 16-bit value at offset 37 and the second
  (the height) the one at offset 19.
\<close>

lemma read_width_and_height_default:
  assumes "39 \<le> length bs"
  shows "read_width_and_height (Some bs) 19 37 =
         Inr (le_uint (take 2 (drop 37 bs)), le_uint (take 2 (drop 19 bs)))"
proof -
  have "min (length bs - 19) 2 = 2" and "min (length bs - 37) 2 = 2"
    using assms by simp_all
  then show ?thesis
    by (simp add: read_width_and_height_def os_open_def os_lseek_def os_read_def
        struct_unpack_H_def Let_def)
qed

text \<open>
  Claim C3. With the default offsets the function returns as width the value stored at
  offset 37 and as height the value stored at offset 19: on an attribute file holding 64 at
  offset 19 and 48 at offset 37 the result is \<open>(48, 64)\<close>, where the claim (and the
  docstring, for which \<^verbatim>\<open>width_pos\<close> is the position of the width) have \<open>(64, 48)\<close>.
\<close>

theorem read_width_and_height_swapped:
  "read_width_and_height (Some (replicate 19 0 @ [64, 0] @ replicate 16 0 @ [48, 0])) 19 37
     = Inr (48, 64)"
  by (simp add: read_width_and_height_def os_open_def os_lseek_def os_read_def
      struct_unpack_H_def)


lemma attr_1x1_eval: "read_width_and_height (Some attr_1x1) 19 37 = Inr (1, 1)"
  by (simp add: attr_1x1_def read_width_and_height_def os_open_def os_lseek_def os_read_def
      struct_unpack_H_def)



section \<open>Layout and metrics of a data file\<close>

text \<open>
  Claim C4. Two frames of one pixel whose timestamps both begin with 1000: the first and
  the last timestamp agree, \<^verbatim>\<open>dt_total\<close> is zero and the division that computes \<^verbatim>\<open>fps\<close>
  raises \<^verbatim>\<open>ZeroDivisionError\<close>.
\<close>

theorem read_file_info_zero_division:
  "read_file_info \<lparr>contents = replicate 40 0 @ [232, 3, 0, 0, 0, 0, 0, 0, 0, 0, 0, 0, 7]
       @ [232, 3, 0, 0, 0, 0, 0, 0, 0, 0, 0, 0, 9], position = 0\<rparr> 1 1 False
     = Inl ZeroDivisionError
   \<and> fst (read_data accept_all
       (Some (replicate 40 0 @ [232, 3, 0, 0, 0, 0, 0, 0, 0, 0, 0, 0, 7]
                @ [232, 3, 0, 0, 0, 0, 0, 0, 0, 0, 0, 0, 9]))
       (Some attr_1x1) no_files default_options)
     = Raised ZeroDivisionError"
  by (simp add: read_data_def attr_1x1_eval os_open_def read_file_info_full ts_at_def u32_at_def
      except_clauses_def)










section \<open>The extraction loop\<close>



declare frame_loop.simps(2) [simp del]









section \<open>Extraction as a whole\<close>








text \<open>
  Claim C10. The keyword parameters \<^verbatim>\<open>first_frame\<close>, \<^verbatim>\<open>last_frame\<close>, \<^verbatim>\<open>quality\<close>,
  \<^verbatim>\<open>framerate\<close>, \<^verbatim>\<open>skipframes\<close> and \<^verbatim>\<open>force_overwrite\<close> have no effect: two calls that
  differ in nothing else return alike, write the same files and hand the same frames to
  the imaging library.
\<close>

theorem read_data_ignores_options:
  "read_data image_save data_file attr_file out_dir opts
     = read_data image_save data_file attr_file out_dir opts'"
  unfolding read_data_def Let_def by (rule refl)









end
